theory Spec2Isabelle
  imports Complex_Main "HOL-Library.Code_Target_Nat"
begin

section \<open>Python strings and the regular expressions of address\_utils.py\<close>

text \<open>
  An address is a Python \<open>str\<close>: a sequence of Unicode code points. The model knows the
  case mappings and the character classes of the ASCII code points and of U+212A (KELVIN
  SIGN, an upper-case letter whose lower case is the ASCII \<open>k\<close>); every other code point
  is taken as a caseless symbol that is neither a word character nor white space, so what
  is proved for all strings is stated for ASCII strings.
\<close>

type_synonym pystr = "nat list"

text \<open>A string literal.\<close>

definition str :: "string \<Rightarrow> pystr" where
  "str s = map of_char s"

definition KELVIN_SIGN :: nat where
  "KELVIN_SIGN = 0x212A"

definition is_ascii :: "nat \<Rightarrow> bool" where
  "is_ascii c = (c < 128)"

definition is_lower :: "nat \<Rightarrow> bool" where
  "is_lower c = (of_char (CHR ''a'') \<le> c \<and> c \<le> of_char (CHR ''z''))"

definition is_ascii_upper :: "nat \<Rightarrow> bool" where
  "is_ascii_upper c = (of_char (CHR ''A'') \<le> c \<and> c \<le> of_char (CHR ''Z''))"

definition is_upper :: "nat \<Rightarrow> bool" where
  "is_upper c = (is_ascii_upper c \<or> c = KELVIN_SIGN)"

definition is_cased :: "nat \<Rightarrow> bool" where
  "is_cased c = (is_lower c \<or> is_upper c)"

definition is_digit :: "nat \<Rightarrow> bool" where
  "is_digit c = (of_char (CHR ''0'') \<le> c \<and> c \<le> of_char (CHR ''9''))"

text \<open>\<open>\w\<close>: letters, digits and the underscore.\<close>

definition is_word :: "nat \<Rightarrow> bool" where
  "is_word c = (is_cased c \<or> is_digit c \<or> c = of_char (CHR ''_''))"

text \<open>
  \<open>\s\<close> and the characters \<open>str.strip()\<close> removes: tab, line feed, vertical tab,
  form feed, carriage return (9 to 13), the four separators 28 to 31 and the space (32).
\<close>

definition is_space :: "nat \<Rightarrow> bool" where
  "is_space c = ((9 \<le> c \<and> c \<le> 13) \<or> (28 \<le> c \<and> c \<le> 32))"

definition newline :: nat where
  "newline = 10"

definition comma :: nat where
  "comma = of_char (CHR '','')"

definition char_upper :: "nat \<Rightarrow> nat" where
  "char_upper c = (if is_lower c then c - 32 else c)"

definition char_lower :: "nat \<Rightarrow> nat" where
  "char_lower c =
     (if is_ascii_upper c then c + 32
      else if c = KELVIN_SIGN then of_char (CHR ''k'')
      else c)"

text \<open>\<open>str.upper()\<close>.\<close>

definition upper :: "pystr \<Rightarrow> pystr" where
  "upper s = map char_upper s"

text \<open>
  \<open>str.title()\<close>: a character that follows a cased character is lowered, any other
  character is title-cased (here: upper-cased). A digit is not cased, so the letter after
  a digit starts a new word.
\<close>

fun title_from :: "bool \<Rightarrow> pystr \<Rightarrow> pystr" where
  "title_from previous_is_cased [] = []"
| "title_from previous_is_cased (c # cs) =
     (if previous_is_cased then char_lower c else char_upper c) # title_from (is_cased c) cs"

definition title :: "pystr \<Rightarrow> pystr" where
  "title s = title_from False s"

text \<open>\<open>str.strip()\<close>.\<close>

definition strip :: "pystr \<Rightarrow> pystr" where
  "strip s = rev (dropWhile is_space (rev (dropWhile is_space s)))"

text \<open>
  \<open>\b\<close> at a position: exactly one of the character before and the character after is
  a word character (the two ends of the string count as non-word).
\<close>

definition word_boundary :: "bool \<Rightarrow> pystr \<Rightarrow> bool" where
  "word_boundary previous_is_word rest =
     (previous_is_word \<noteq> (case rest of [] \<Rightarrow> False | c # _ \<Rightarrow> is_word c))"

definition starts_with :: "pystr \<Rightarrow> pystr \<Rightarrow> bool" where
  "starts_with p s = (take (length p) s = p)"

text \<open>
  \<open>re.sub(r'\b' + full + r'\b', abbr, addr)\<close>: the scan goes left to right; where the
  pattern matches, the replacement is emitted and the scan goes on after the match; where
  it does not, the character is copied. The flag carried along says whether the character
  before the position is a word character.
\<close>

fun re_sub_word :: "pystr \<Rightarrow> pystr \<Rightarrow> bool \<Rightarrow> pystr \<Rightarrow> pystr" where
  "re_sub_word full abbr previous_is_word [] = []"
| "re_sub_word full abbr previous_is_word (c # cs) =
     (if word_boundary previous_is_word (c # cs) \<and> starts_with full (c # cs)
         \<and> word_boundary (is_word (last full)) (drop (length full) (c # cs))
      then abbr @ re_sub_word full abbr (is_word (last full)) (drop (length full - 1) cs)
      else c # re_sub_word full abbr (is_word c) cs)"

text \<open>The dictionary \<open>abbrev_map\<close> of \<open>normalize_address\<close>, in its insertion order.\<close>

definition abbrev_map :: "(string \<times> string) list" where
  "abbrev_map =
    [(''STREET'', ''ST''), (''AVENUE'', ''AVE''), (''BOULEVARD'', ''BLVD''), (''DRIVE'', ''DR''),
     (''ROAD'', ''RD''), (''LANE'', ''LN''), (''COURT'', ''CT''), (''CIRCLE'', ''CIR''),
     (''PLACE'', ''PL''), (''HIGHWAY'', ''HWY''), (''PARKWAY'', ''PKWY''),
     (''APARTMENT'', ''APT''), (''SUITE'', ''STE''), (''NORTH'', ''N''), (''SOUTH'', ''S''),
     (''EAST'', ''E''), (''WEST'', ''W''), (''NORTHEAST'', ''NE''), (''NORTHWEST'', ''NW''),
     (''SOUTHEAST'', ''SE''), (''SOUTHWEST'', ''SW'')]"

text \<open>The loop \<open>for full, abbr in abbrev_map.items(): addr = re.sub(...)\<close>.\<close>

fun abbreviate :: "(string \<times> string) list \<Rightarrow> pystr \<Rightarrow> pystr" where
  "abbreviate [] addr = addr"
| "abbreviate ((full, abbr) # rest) addr =
     abbreviate rest (re_sub_word (str full) (str abbr) False addr)"

definition normalize_address :: "pystr \<Rightarrow> pystr" where
  "normalize_address address =
     (if address = [] then address
      else title (abbreviate abbrev_map (upper address)))"

text \<open>
  \<open>remove_unit\<close>. The pattern \<open>\b(?:APT|UNIT|STE|#)\s*[\w-]+\<close> is matched with
  \<open>re.IGNORECASE\<close>. \<open>unit_match_length s\<close> is the length of its match at the start
  of \<open>s\<close> (the \<open>\b\<close> apart): the first marker of the alternation that \<open>s\<close>
  starts with, all the white space after it, and the longest run of word characters and
  hyphens, which must not be empty. Giving back white space cannot help the match (a space
  is not in \<open>[\w-]\<close>), so the greedy choice is the only one.
\<close>

definition unit_markers :: "string list" where
  "unit_markers = [''APT'', ''UNIT'', ''STE'', ''#'']"

definition is_unit_char :: "nat \<Rightarrow> bool" where
  "is_unit_char c = (is_word c \<or> c = of_char (CHR ''-''))"

fun unit_match_from :: "string list \<Rightarrow> pystr \<Rightarrow> nat option" where
  "unit_match_from [] s = None"
| "unit_match_from (m # ms) s =
     (if starts_with (str m) (upper s) then
        (let after_marker = drop (length m) s;
             spaces = takeWhile is_space after_marker;
             token = takeWhile is_unit_char (dropWhile is_space after_marker)
         in if token \<noteq> [] then Some (length m + length spaces + length token)
            else unit_match_from ms s)
      else unit_match_from ms s)"

definition unit_match_length :: "pystr \<Rightarrow> nat option" where
  "unit_match_length s = unit_match_from unit_markers s"

text \<open>\<open>re.sub(r'\b(?:APT|UNIT|STE|#)\s*[\w-]+', '', address, flags=re.IGNORECASE)\<close>.\<close>

fun re_sub_unit :: "bool \<Rightarrow> pystr \<Rightarrow> pystr" where
  "re_sub_unit previous_is_word [] = []"
| "re_sub_unit previous_is_word (c # cs) =
     (case (if word_boundary previous_is_word (c # cs) then unit_match_length (c # cs) else None) of
        Some n \<Rightarrow> re_sub_unit (is_word ((c # cs) ! (n - 1))) (drop (n - 1) cs)
      | None \<Rightarrow> c # re_sub_unit (is_word c) cs)"

text \<open>
  \<open>re.sub(r',\s*$', '', addr)\<close>: a comma with nothing but white space after it, up to
  the end of the string, is removed with that white space.
\<close>

fun re_sub_trailing_comma :: "pystr \<Rightarrow> pystr" where
  "re_sub_trailing_comma [] = []"
| "re_sub_trailing_comma (c # cs) =
     (if c = comma \<and> list_all is_space cs then []
      else c # re_sub_trailing_comma cs)"

text \<open>\<open>re.sub(r'\s+', ' ', addr)\<close>: every run of white space becomes one space.\<close>

function re_sub_spaces :: "pystr \<Rightarrow> pystr" where
  "re_sub_spaces [] = []"
| "re_sub_spaces (c # cs) =
     (if is_space c then of_char (CHR '' '') # re_sub_spaces (dropWhile is_space cs)
      else c # re_sub_spaces cs)"
  by pat_completeness auto
termination
  by (relation "measure length") (auto simp: le_imp_less_Suc length_dropWhile_le)

definition remove_unit :: "pystr \<Rightarrow> pystr" where
  "remove_unit address =
     (if address = [] then address
      else strip (re_sub_spaces (re_sub_trailing_comma (re_sub_unit False address))))"

text \<open>\<open>remove_secondary\<close>: \<open>address.split(',', 1)[0].strip()\<close>.\<close>

definition remove_secondary :: "pystr \<Rightarrow> pystr" where
  "remove_secondary address =
     (if address = [] then address
      else strip (takeWhile (\<lambda>c. c \<noteq> comma) address))"

text \<open>
  \<open>extract_street_city_state\<close>. The pattern, matched from the start of the address with
  \<open>re.IGNORECASE\<close>, is
  \<open>(.*?),\s*(.*?),\s*([A-Z]{2})(?:\s+\d{5}(?:-\d{4})?)?$\<close>.
  \<open>.\<close> does not match a line feed, and \<open>$\<close> matches at the end of the string
  or before a line feed that ends it.
\<close>

definition at_end :: "pystr \<Rightarrow> bool" where
  "at_end s = (s = [] \<or> s = [newline])"

text \<open>\<open>\d{5}\<close> at the start of the string.\<close>

definition five_digits :: "pystr \<Rightarrow> bool" where
  "five_digits s = (5 \<le> length s \<and> list_all is_digit (take 5 s))"

text \<open>\<open>-\d{4}\<close> at the start of the string.\<close>

definition plus_four :: "pystr \<Rightarrow> bool" where
  "plus_four s =
     (5 \<le> length s \<and> hd s = of_char (CHR ''-'') \<and> list_all is_digit (take 4 (tl s)))"

text \<open>\<open>(?:\s+\d{5}(?:-\d{4})?)?$\<close>: the optional group is tried first, then skipped.\<close>

definition zip_then_end :: "pystr \<Rightarrow> bool" where
  "zip_then_end s =
     (let z = dropWhile is_space s
      in (z \<noteq> s \<and> five_digits z
            \<and> ((plus_four (drop 5 z) \<and> at_end (drop 10 z)) \<or> at_end (drop 5 z)))
         \<or> at_end s)"

text \<open>
  \<open>([A-Z]{2})(?:\s+\d{5}(?:-\d{4})?)?$\<close>; under \<open>re.IGNORECASE\<close> the class
  \<open>[A-Z]\<close> takes the letters of either case.
\<close>

definition state_zip_end :: "pystr \<Rightarrow> bool" where
  "state_zip_end s =
     (case s of
        c1 # c2 # rest \<Rightarrow> is_cased c1 \<and> is_cased c2 \<and> zip_then_end rest
      | _ \<Rightarrow> False)"

text \<open>
  The second lazy group \<open>(.*?)\<close> and what follows it: the group grows one character
  at a time (never over a line feed) and stops at the first comma after which the rest of
  the pattern matches. \<open>city\<close> holds the group so far, reversed. After a comma,
  \<open>\s*\<close> takes all the white space: the text that follows white space it gave back would
  have to start with white space, which neither a letter of the state nor (for the first
  comma) a shorter way to a match allows.
\<close>

fun match_city_state :: "pystr \<Rightarrow> pystr \<Rightarrow> (pystr \<times> pystr) option" where
  "match_city_state city [] = None"
| "match_city_state city (c # cs) =
     (if c = comma \<and> state_zip_end (dropWhile is_space cs)
      then Some (rev city, take 2 (dropWhile is_space cs))
      else if c = newline then None
      else match_city_state (c # city) cs)"

text \<open>The first lazy group, in the same way; \<open>street\<close> holds it reversed.\<close>

fun match_street_city_state :: "pystr \<Rightarrow> pystr \<Rightarrow> (pystr \<times> pystr \<times> pystr) option" where
  "match_street_city_state street [] = None"
| "match_street_city_state street (c # cs) =
     (case (if c = comma then match_city_state [] (dropWhile is_space cs) else None) of
        Some (city, state) \<Rightarrow> Some (rev street, city, state)
      | None \<Rightarrow>
          if c = newline then None
          else match_street_city_state (c # street) cs)"

definition extract_street_city_state :: "pystr \<Rightarrow> pystr" where
  "extract_street_city_state address =
     (if address = [] then address
      else case match_street_city_state [] address of
             Some (street, city, state) \<Rightarrow> street @ str '', '' @ city @ str '', '' @ state
           | None \<Rightarrow> address)"

text \<open>
  \<open>extract_street_zip\<close>. \<open>re.match(r'(.*?),', address)\<close> is the text before the first
  comma, when no line feed stands before that comma.
\<close>

definition street_match :: "pystr \<Rightarrow> pystr option" where
  "street_match address =
     (let street = takeWhile (\<lambda>c. c \<noteq> comma) address
      in if length street < length address \<and> newline \<notin> set street then Some street else None)"

text \<open>\<open>re.search(r'(\d{5}(?:-\d{4})?)', address)\<close>: the leftmost five digits, with their +4.\<close>

fun zip_match :: "pystr \<Rightarrow> pystr option" where
  "zip_match [] = None"
| "zip_match (c # cs) =
     (if five_digits (c # cs)
      then Some (take (if plus_four (drop 5 (c # cs)) then 10 else 5) (c # cs))
      else zip_match cs)"

definition extract_street_zip :: "pystr \<Rightarrow> pystr" where
  "extract_street_zip address =
     (if address = [] then address
      else case (street_match address, zip_match address) of
             (Some street, Some zip_code) \<Rightarrow> strip street @ str '', '' @ zip_code
           | _ \<Rightarrow> address)"

section \<open>Configuration (config.py)\<close>

definition LOCKSMITH_BASE_ADDRESSES :: "string \<rightharpoonup> pystr" where
  "LOCKSMITH_BASE_ADDRESSES = [''QuickFix'' \<mapsto> str ''1614 10th St S, Arlington, VA 22204'']"

definition COMPANY_TABLE_MAPPING :: "string \<rightharpoonup> string" where
  "COMPANY_TABLE_MAPPING = [''QuickFix'' \<mapsto> ''QuickFixLocksmithJobs'']"

definition EARTH_RADIUS_KM :: real where
  "EARTH_RADIUS_KM = 6371"

definition AVG_SPEED_KMH :: real where
  "AVG_SPEED_KMH = 4828 / 100"

definition ROAD_NETWORK_MULTIPLIER :: real where
  "ROAD_NETWORK_MULTIPLIER = 14 / 10"

text \<open>
  The values of \<open>VARIATION_TYPES\<close>: \<open>'original'\<close>, \<open>'normalized'\<close>, \<open>'no_unit'\<close>,
  \<open>'no_secondary'\<close>, \<open>'street_city_state'\<close> and \<open>'street_zip'\<close>.
\<close>

datatype variation_type =
  ORIGINAL | NORMALIZED | NO_UNIT | NO_SECONDARY | STREET_CITY_STATE | STREET_ZIP

section \<open>Data, collaborators and process state\<close>

text \<open>
  Numbers read from the store and the coordinates of the providers are Python floats
  (or \<open>Decimal\<close>s turned into floats); the model has the real number a float stands for.
  \<open>float('inf')\<close> is a value of its own. The sums of the Availability Calculator are
  taken over the reals; the arithmetic of the Travel Estimator, where an exception depends
  on the rounding, goes through \<open>float_arith\<close> below.
\<close>

type_synonym coords = "real \<times> real"

text \<open>
  The floating-point arithmetic of the platform, as far as travel\_time.py uses it:
  \<open>fl x\<close> is the float that \<open>+\<close>, \<open>-\<close>, \<open>*\<close> and \<open>/\<close> return when the exact result is
  \<open>x\<close> (a float literal is rounded the same way), the others are the functions of the \<open>math\<close>
  module and \<open>x ** 2\<close>. Floats are taken to be finite.
\<close>

record float_arith =
  fl :: "real \<Rightarrow> real"
  math_radians :: "real \<Rightarrow> real"
  math_sin :: "real \<Rightarrow> real"
  math_cos :: "real \<Rightarrow> real"
  math_sqrt :: "real \<Rightarrow> real"
  math_atan2 :: "real \<Rightarrow> real \<Rightarrow> real"
  float_pow2 :: "real \<Rightarrow> real"



datatype py_float = Finite real | Infinity

fun float_less :: "py_float \<Rightarrow> py_float \<Rightarrow> bool" where
  "float_less (Finite a) (Finite b) = (a < b)"
| "float_less (Finite a) Infinity = True"
| "float_less Infinity b = False"

text \<open>
  The exceptions the model tells apart: botocore's \<open>ClientError\<close> (the one
  \<open>get_here_api_key\<close> catches), \<open>ValueError\<close> (what \<open>math.sqrt\<close> raises on a negative
  number) and any other exception.
\<close>

datatype exn = ClientError | ValueError | OtherException

text \<open>
  A reply of the geocoding provider to \<open>requests.get\<close>: either the call (or the decoding
  of its body) raises, or there is a status code and the list \<open>items\<close> of the body, each
  item with its position when the item has one with \<open>lat\<close> and \<open>lng\<close>, and a body
  without \<open>items\<close> is the empty list.
\<close>

datatype geocode_reply = Geocode_raises | Geocode_response nat "coords option list"

text \<open>
  A reply of the routing provider: the call raises, or there is a status code and the
  \<open>duration\<close> (seconds) of the first section of the first route, when the body has one.
\<close>

datatype routing_reply = Routing_raises | Routing_response nat "real option"

text \<open>
  The collaborators and the platform. Each answer of a collaborator may depend on when it
  is asked: the first argument is the number of interactions the process has had with the
  outside so far (\<open>tick\<close> below).
\<close>

record services =
  ssm_get_parameter :: "nat \<Rightarrow> exn + string"
  requests_get_geocode :: "nat \<Rightarrow> pystr \<Rightarrow> string \<Rightarrow> geocode_reply"
  requests_get_route :: "nat \<Rightarrow> coords \<Rightarrow> coords \<Rightarrow> string \<Rightarrow> routing_reply"
  datetime_now :: "nat \<Rightarrow> string"
  time_time :: "nat \<Rightarrow> int"
  arith :: float_arith

record metric =
  variation_type :: variation_type
  success :: bool
  timestamp :: string

record base_address =
  base_addr :: pystr
  base_coords :: "coords option"

text \<open>A queued job; a field the stored item lacks is \<open>None\<close>.\<close>

record job =
  estimatedTime :: "real option"
  travelTime :: "real option"
  arrived :: "bool option"
  address :: "pystr option"
  latitude :: "real option"
  longitude :: "real option"

record locksmith =
  locksmithId :: "string option"
  jobQueue :: "job list option"
  base_address :: "base_address option"

text \<open>The item \<open>update_next_available_cache\<close> puts into \<open>NextAvailableCache\<close>.\<close>

record cache_item =
  companyName :: "string option"
  cache_locksmithId :: "string option"
  cache_travelTime :: int
  ttl :: int
  jobAddress :: "pystr option"
  cache_coords :: "coords option"

text \<open>
  The state of the process: the module globals \<open>_here_api_key\<close>, \<open>_metrics_to_record\<close>
  and \<open>CURRENT_COMPANY\<close>, the count of interactions with the outside, and what the process
  has asked of the outside so far: the addresses \<open>geocode_with_fuzzy_matching\<close> was called
  with, the addresses sent to the geocoding provider, the \<open>update_item\<close> calls on the
  technician table (table name, technician, value) and the \<open>put_item\<close> calls on the cache table.
\<close>

record state =
  here_api_key :: "string option"
  metrics_to_record :: "metric list"
  CURRENT_COMPANY :: "string option"
  tick :: nat
  resolutions :: "pystr option list"
  geocode_requests :: "pystr list"
  base_address_updates :: "(string option \<times> string \<times> base_address) list"
  cache_puts :: "cache_item list"

text \<open>Python's truth value of a string that may be \<open>None\<close>.\<close>

definition truthy :: "'a list option \<Rightarrow> bool" where
  "truthy s = (case s of None \<Rightarrow> False | Some v \<Rightarrow> v \<noteq> [])"

section \<open>The Geocoder (address\_utils.py, metrics.py)\<close>

definition get_here_api_key :: "services \<Rightarrow> state \<Rightarrow> (exn + string option) \<times> state" where
  "get_here_api_key sv st =
     (if truthy (here_api_key st) then (Inr (here_api_key st), st)
      else case ssm_get_parameter sv (tick st) of
             Inr v \<Rightarrow> (Inr (Some v), st\<lparr>here_api_key := Some v, tick := Suc (tick st)\<rparr>)
           | Inl ClientError \<Rightarrow> (Inr None, st\<lparr>tick := Suc (tick st)\<rparr>)
           | Inl e \<Rightarrow> (Inl e, st\<lparr>tick := Suc (tick st)\<rparr>))"

definition record_geocoding_success :: "services \<Rightarrow> variation_type \<Rightarrow> bool \<Rightarrow> state \<Rightarrow> state" where
  "record_geocoding_success sv vt ok st =
     st\<lparr>metrics_to_record := metrics_to_record st @
           [\<lparr>variation_type = vt, success = ok, timestamp = datetime_now sv (tick st)\<rparr>],
        tick := Suc (tick st)\<rparr>"

text \<open>
  What \<open>geocode_address\<close> makes of the provider's reply: the position of the first
  item when the status is 200; \<open>None\<close> on another status, no item, a first item without
  position, or an exception (every exception is caught).
\<close>

definition reply_position :: "geocode_reply \<Rightarrow> coords option" where
  "reply_position reply =
     (case reply of
        Geocode_response status (Some position # _) \<Rightarrow>
          if status = 200 then Some position else None
      | _ \<Rightarrow> None)"

text \<open>\<open>geocode_address\<close>: one request to the provider, unless address or key is empty.\<close>

definition geocode_address ::
  "services \<Rightarrow> pystr \<Rightarrow> string option \<Rightarrow> state \<Rightarrow> coords option \<times> state" where
  "geocode_address sv addr api_key st =
     (case api_key of
        None \<Rightarrow> (None, st)
      | Some k \<Rightarrow>
          if addr = [] \<or> k = [] then (None, st)
          else
            (reply_position (requests_get_geocode sv (tick st) addr k),
             st\<lparr>tick := Suc (tick st), geocode_requests := geocode_requests st @ [addr]\<rparr>))"

text \<open>The lists \<open>variations\<close> and \<open>variation_types\<close>, side by side.\<close>

definition variations :: "pystr \<Rightarrow> (variation_type \<times> pystr) list" where
  "variations original_address =
     [(ORIGINAL, original_address),
      (NORMALIZED, normalize_address original_address),
      (NO_UNIT, remove_unit original_address),
      (NO_SECONDARY, remove_secondary original_address),
      (STREET_CITY_STATE, extract_street_city_state original_address),
      (STREET_ZIP, extract_street_zip original_address)]"

text \<open>The loop \<open>for i, addr_variation in enumerate(variations)\<close>.\<close>

fun try_variations ::
  "services \<Rightarrow> string option \<Rightarrow> (variation_type \<times> pystr) list \<Rightarrow> state
     \<Rightarrow> coords option \<times> state" where
  "try_variations sv api_key [] st = (None, st)"
| "try_variations sv api_key ((vt, addr_variation) # rest) st =
     (if addr_variation = [] then try_variations sv api_key rest st
      else (case geocode_address sv addr_variation api_key st of
              (Some found, st') \<Rightarrow> (Some found, record_geocoding_success sv vt True st')
            | (None, st') \<Rightarrow>
                try_variations sv api_key rest (record_geocoding_success sv vt False st')))"

definition geocode_with_fuzzy_matching ::
  "services \<Rightarrow> pystr option \<Rightarrow> state \<Rightarrow> (exn + coords option) \<times> state" where
  "geocode_with_fuzzy_matching sv original_address st =
     (let st0 = st\<lparr>resolutions := resolutions st @ [original_address]\<rparr>
      in case original_address of
           None \<Rightarrow> (Inr None, st0)
         | Some a \<Rightarrow>
             if a = [] then (Inr None, st0)
             else (case get_here_api_key sv st0 of
                     (Inl e, st1) \<Rightarrow> (Inl e, st1)
                   | (Inr api_key, st1) \<Rightarrow>
                       if \<not> truthy api_key then (Inr None, st1)
                       else (case try_variations sv api_key (variations a) st1 of
                               (found, st2) \<Rightarrow> (Inr found, st2))))"

section \<open>The Travel Estimator (travel\_time.py)\<close>

text \<open>
  Lines 86 to 94 of \<open>calculate_travel_time_fallback\<close>: the \<open>a\<close> of the haversine formula,
  every operation with its rounding.
\<close>

definition haversine_a :: "float_arith \<Rightarrow> coords \<Rightarrow> coords \<Rightarrow> real" where
  "haversine_a fa origin_coords dest_coords =
     (let lat1_rad = math_radians fa (fst origin_coords);
          lon1_rad = math_radians fa (snd origin_coords);
          lat2_rad = math_radians fa (fst dest_coords);
          lon2_rad = math_radians fa (snd dest_coords);
          dlon = fl fa (lon2_rad - lon1_rad);
          dlat = fl fa (lat2_rad - lat1_rad)
      in fl fa (float_pow2 fa (math_sin fa (fl fa (dlat / 2)))
                + fl fa (fl fa (math_cos fa lat1_rad * math_cos fa lat2_rad)
                         * float_pow2 fa (math_sin fa (fl fa (dlon / 2))))))"

text \<open>Lines 95 to 102: from \<open>a\<close> to \<open>travel_time_hours\<close>.\<close>

definition haversine_hours :: "float_arith \<Rightarrow> real \<Rightarrow> real" where
  "haversine_hours fa a =
     (let c = fl fa (2 * math_atan2 fa (math_sqrt fa a) (math_sqrt fa (fl fa (1 - a))));
          distance_km = fl fa (EARTH_RADIUS_KM * c);
          road_distance_km = fl fa (distance_km * fl fa ROAD_NETWORK_MULTIPLIER)
      in fl fa (road_distance_km / fl fa AVG_SPEED_KMH))"

text \<open>
  The arithmetic of \<open>calculate_travel_time_fallback\<close> once both coordinate pairs are
  there. \<open>math.sqrt\<close> raises \<open>ValueError\<close> on a negative argument: first
  \<open>math.sqrt(a)\<close>, then \<open>math.sqrt(1-a)\<close>; nothing catches it. The result is
  \<open>math.ceil(travel_time_hours * 60)\<close>.
\<close>

definition haversine_minutes :: "float_arith \<Rightarrow> coords \<Rightarrow> coords \<Rightarrow> exn + int" where
  "haversine_minutes fa origin_coords dest_coords =
     (let a = haversine_a fa origin_coords dest_coords
      in if a < 0 \<or> fl fa (1 - a) < 0 then Inl ValueError
         else Inr \<lceil>fl fa (haversine_hours fa a * 60)\<rceil>)"

text \<open>\<open>if not coords: coords = geocode_with_fuzzy_matching(address)\<close>.\<close>

definition coords_or_geocode ::
  "services \<Rightarrow> coords option \<Rightarrow> pystr option \<Rightarrow> state \<Rightarrow> (exn + coords option) \<times> state" where
  "coords_or_geocode sv known addr st =
     (case known of
        Some c \<Rightarrow> (Inr (Some c), st)
      | None \<Rightarrow> geocode_with_fuzzy_matching sv addr st)"

definition calculate_travel_time_fallback ::
  "services \<Rightarrow> pystr option \<Rightarrow> pystr option \<Rightarrow> coords option \<Rightarrow> coords option \<Rightarrow> state
     \<Rightarrow> (exn + int) \<times> state" where
  "calculate_travel_time_fallback sv origin_address dest_address origin_coords dest_coords st =
     (case coords_or_geocode sv origin_coords origin_address st of
        (Inl e, st1) \<Rightarrow> (Inl e, st1)
      | (Inr None, st1) \<Rightarrow> (Inr 30, st1)
      | (Inr (Some origin), st1) \<Rightarrow>
          (case coords_or_geocode sv dest_coords dest_address st1 of
             (Inl e, st2) \<Rightarrow> (Inl e, st2)
           | (Inr None, st2) \<Rightarrow> (Inr 30, st2)
           | (Inr (Some dest), st2) \<Rightarrow> (haversine_minutes (arith sv) origin dest, st2)))"

text \<open>
  The call of the routing provider inside \<open>try\<close>: \<open>math.ceil(travel_time_seconds / 60)\<close>
  when the status is 200 and the body has the duration, \<open>None\<close> on another status, a body
  without it, or an exception.
\<close>

definition route_minutes :: "float_arith \<Rightarrow> routing_reply \<Rightarrow> int option" where
  "route_minutes fa reply =
     (case reply of
        Routing_response status (Some travel_time_seconds) \<Rightarrow>
          if status = 200 then Some \<lceil>fl fa (travel_time_seconds / 60)\<rceil> else None
      | _ \<Rightarrow> None)"

definition calculate_travel_time_with_coords ::
  "services \<Rightarrow> pystr option \<Rightarrow> pystr option \<Rightarrow> coords option \<Rightarrow> coords option \<Rightarrow> state
     \<Rightarrow> (exn + int) \<times> state" where
  "calculate_travel_time_with_coords sv origin_address dest_address origin_coords dest_coords st =
     (case get_here_api_key sv st of
        (Inl e, st0) \<Rightarrow> (Inl e, st0)
      | (Inr api_key, st0) \<Rightarrow>
          (case coords_or_geocode sv origin_coords origin_address st0 of
             (Inl e, st1) \<Rightarrow> (Inl e, st1)
           | (Inr None, st1) \<Rightarrow>
               calculate_travel_time_fallback sv origin_address dest_address None None st1
           | (Inr (Some origin), st1) \<Rightarrow>
               (case coords_or_geocode sv dest_coords dest_address st1 of
                  (Inl e, st2) \<Rightarrow> (Inl e, st2)
                | (Inr None, st2) \<Rightarrow>
                    calculate_travel_time_fallback sv origin_address dest_address None None st2
                | (Inr (Some dest), st2) \<Rightarrow>
                    (case api_key of
                       None \<Rightarrow>
                         calculate_travel_time_fallback sv origin_address dest_address
                           (Some origin) (Some dest) st2
                     | Some k \<Rightarrow>
                         if k = [] then
                           calculate_travel_time_fallback sv origin_address dest_address
                             (Some origin) (Some dest) st2
                         else
                           (case route_minutes (arith sv)
                                   (requests_get_route sv (tick st2) origin dest k) of
                              Some travel_time_minutes \<Rightarrow>
                                (Inr travel_time_minutes, st2\<lparr>tick := Suc (tick st2)\<rparr>)
                            | None \<Rightarrow>
                                calculate_travel_time_fallback sv origin_address dest_address
                                  (Some origin) (Some dest) (st2\<lparr>tick := Suc (tick st2)\<rparr>))))))"

section \<open>The Availability Calculator (dynamo\_utils.py)\<close>

text \<open>
  The loop over the job queue: \<open>estimatedTime\<close> is always added, \<open>travelTime\<close> only
  when the job is not marked arrived; a missing field counts as 0 (as \<open>False\<close> for
  \<open>arrived\<close>).
\<close>

definition field_or_zero :: "real option \<Rightarrow> real" where
  "field_or_zero v = (case v of None \<Rightarrow> 0 | Some x \<Rightarrow> x)"

definition is_arrived :: "job \<Rightarrow> bool" where
  "is_arrived j = (case arrived j of None \<Rightarrow> False | Some a \<Rightarrow> a)"

fun workload_loop :: "real \<Rightarrow> job list \<Rightarrow> real" where
  "workload_loop workload_minutes [] = workload_minutes"
| "workload_loop workload_minutes (j # rest) =
     workload_loop
       (let w = workload_minutes + field_or_zero (estimatedTime j)
        in if \<not> is_arrived j then w + field_or_zero (travelTime j) else w)
       rest"

text \<open>\<open>last_job_coords\<close>: the stored latitude and longitude, when the job has both.\<close>

definition job_coords :: "job \<Rightarrow> coords option" where
  "job_coords j =
     (case (latitude j, longitude j) of
        (Some lat, Some lon) \<Rightarrow> Some (lat, lon)
      | _ \<Rightarrow> None)"

text \<open>\<open>eta = workload_minutes + travel_time; return eta, travel_time\<close>.\<close>

definition eta_result ::
  "real \<Rightarrow> (exn + int) \<times> state \<Rightarrow> (exn + py_float \<times> int) \<times> state" where
  "eta_result workload_minutes r =
     (case r of
        (Inl e, st') \<Rightarrow> (Inl e, st')
      | (Inr travel_time, st') \<Rightarrow>
          (Inr (Finite (workload_minutes + real_of_int travel_time), travel_time), st'))"

text \<open>
  The \<open>update_item\<close> that stores a freshly geocoded base address on the technician's item.
  An exception of the store is caught and logged, so the call changes nothing else.
\<close>

definition store_base_address :: "string option \<Rightarrow> string \<Rightarrow> base_address \<Rightarrow> state \<Rightarrow> state" where
  "store_base_address company_name locksmith_id b st =
     st\<lparr>base_address_updates := base_address_updates st @
           [(case company_name of None \<Rightarrow> None | Some c \<Rightarrow> COMPANY_TABLE_MAPPING c, locksmith_id, b)],
        tick := Suc (tick st)\<rparr>"

text \<open>\<open>LOCKSMITH_BASE_ADDRESSES.get(company_name)\<close>.\<close>

definition configured_base_address :: "string option \<Rightarrow> pystr option" where
  "configured_base_address company_name =
     (case company_name of None \<Rightarrow> None | Some c \<Rightarrow> LOCKSMITH_BASE_ADDRESSES c)"

definition calculate_locksmith_eta ::
  "services \<Rightarrow> locksmith \<Rightarrow> pystr option \<Rightarrow> coords option \<Rightarrow> state
     \<Rightarrow> (exn + py_float \<times> int) \<times> state" where
  "calculate_locksmith_eta sv l new_job_address new_job_coords st =
     (let locksmith_id = (case locksmithId l of None \<Rightarrow> ''unknown'' | Some i \<Rightarrow> i);
          company_name = CURRENT_COMPANY st;
          job_queue = (case jobQueue l of None \<Rightarrow> [] | Some q \<Rightarrow> q)
      in if job_queue = [] then
           (case base_address l of
              Some b \<Rightarrow>
                eta_result 0
                  (calculate_travel_time_with_coords sv (Some (base_addr b)) new_job_address
                     (base_coords b) new_job_coords st)
            | None \<Rightarrow>
                (case configured_base_address company_name of
                   None \<Rightarrow> (Inr (Infinity, 0), st)
                 | Some a \<Rightarrow>
                     if a = [] then (Inr (Infinity, 0), st)
                     else
                       (case geocode_with_fuzzy_matching sv (Some a) st of
                          (Inl e, st1) \<Rightarrow> (Inl e, st1)
                        | (Inr found, st1) \<Rightarrow>
                            eta_result 0
                              (calculate_travel_time_with_coords sv (Some a) new_job_address
                                 found new_job_coords
                                 (case found of
                                    None \<Rightarrow> st1
                                  | Some c \<Rightarrow>
                                      store_base_address company_name locksmith_id
                                        \<lparr>base_addr = a, base_coords = Some c\<rparr> st1)))))
         else
           (let last_job = last job_queue
            in eta_result (workload_loop 0 job_queue)
                 (calculate_travel_time_with_coords sv (address last_job) new_job_address
                    (job_coords last_job) new_job_coords st)))"

section \<open>The Dispatcher (dynamo\_utils.py)\<close>

text \<open>
  \<open>update_next_available_cache\<close>: the item is built (\<open>time.time()\<close> is read for the
  expiry) and put; an exception of the store is caught and logged.
\<close>

definition update_next_available_cache ::
  "services \<Rightarrow> string option \<Rightarrow> string option \<Rightarrow> int \<Rightarrow> coords option \<Rightarrow> pystr option
     \<Rightarrow> state \<Rightarrow> state" where
  "update_next_available_cache sv company_name locksmith_id travel_time new_job_coords
       new_job_address st =
     st\<lparr>cache_puts := cache_puts st @
           [\<lparr>companyName = company_name,
             cache_locksmithId = locksmith_id,
             cache_travelTime = travel_time,
             ttl = time_time sv (tick st) + 300,
             jobAddress = (if truthy new_job_address then new_job_address else None),
             cache_coords = new_job_coords\<rparr>],
        tick := Suc (Suc (tick st))\<rparr>"

text \<open>
  The loop \<open>for locksmith in locksmiths\<close>, with the variables \<open>earliest_eta\<close>,
  \<open>earliest_locksmith_id\<close>, \<open>earliest_travel_time\<close> and \<open>locksmith_count\<close> it updates.
\<close>

type_synonym earliest = "py_float \<times> string option \<times> int \<times> nat"

fun locksmith_loop ::
  "services \<Rightarrow> pystr option \<Rightarrow> coords option \<Rightarrow> locksmith list \<Rightarrow> earliest \<Rightarrow> state
     \<Rightarrow> (exn + earliest) \<times> state" where
  "locksmith_loop sv new_job_address new_job_coords [] acc st = (Inr acc, st)"
| "locksmith_loop sv new_job_address new_job_coords (l # rest)
       (earliest_eta, earliest_locksmith_id, earliest_travel_time, locksmith_count) st =
     (case calculate_locksmith_eta sv l new_job_address new_job_coords st of
        (Inl e, st') \<Rightarrow> (Inl e, st')
      | (Inr (eta, travel_time), st') \<Rightarrow>
          locksmith_loop sv new_job_address new_job_coords rest
            (if float_less eta earliest_eta
             then (eta, locksmithId l, travel_time, Suc locksmith_count)
             else (earliest_eta, earliest_locksmith_id, earliest_travel_time, Suc locksmith_count))
            st')"

definition find_earliest_locksmith ::
  "services \<Rightarrow> locksmith list \<Rightarrow> pystr option \<Rightarrow> state
     \<Rightarrow> (exn + string option \<times> py_float) \<times> state" where
  "find_earliest_locksmith sv locksmiths new_job_address st =
     (if locksmiths = [] then (Inr (None, Infinity), st)
      else
        (case geocode_with_fuzzy_matching sv new_job_address st of
           (Inl e, st1) \<Rightarrow> (Inl e, st1)
         | (Inr new_job_coords, st1) \<Rightarrow>
             (case locksmith_loop sv new_job_address new_job_coords locksmiths
                     (Infinity, None, 0, 0) st1 of
                (Inl e, st2) \<Rightarrow> (Inl e, st2)
              | (Inr (earliest_eta, earliest_locksmith_id, earliest_travel_time, locksmith_count), st2) \<Rightarrow>
                  (Inr (earliest_locksmith_id, earliest_eta),
                   update_next_available_cache sv (CURRENT_COMPANY st) earliest_locksmith_id
                     earliest_travel_time new_job_coords new_job_address st2))))"

section \<open>Views of the loops and conditions on the collaborators\<close>

text \<open>
  The loop of \<open>find_earliest_locksmith\<close> in two passes: \<open>evaluate_all\<close> makes the calls of
  \<open>calculate_locksmith_eta\<close> in the order of the list, \<open>keep_earliest\<close> is the comparison
  \<open>if eta < earliest_eta\<close> over their results. Lemma \<open>locksmith_loop_evaluate_all\<close> shows
  that \<open>locksmith_loop\<close> is their composition.
\<close>

fun evaluate_all ::
  "services \<Rightarrow> pystr option \<Rightarrow> coords option \<Rightarrow> locksmith list \<Rightarrow> state
     \<Rightarrow> (exn + (py_float \<times> int) list) \<times> state" where
  "evaluate_all sv new_job_address new_job_coords [] st = (Inr [], st)"
| "evaluate_all sv new_job_address new_job_coords (l # rest) st =
     (case calculate_locksmith_eta sv l new_job_address new_job_coords st of
        (Inl e, st') \<Rightarrow> (Inl e, st')
      | (Inr r, st') \<Rightarrow>
          (case evaluate_all sv new_job_address new_job_coords rest st' of
             (Inl e, st'') \<Rightarrow> (Inl e, st'')
           | (Inr rs, st'') \<Rightarrow> (Inr (r # rs), st'')))"

fun keep_earliest :: "locksmith list \<Rightarrow> (py_float \<times> int) list \<Rightarrow> earliest \<Rightarrow> earliest" where
  "keep_earliest (l # ls) ((eta, travel_time) # rs)
       (earliest_eta, earliest_locksmith_id, earliest_travel_time, locksmith_count) =
     keep_earliest ls rs
       (if float_less eta earliest_eta
        then (eta, locksmithId l, travel_time, Suc locksmith_count)
        else (earliest_eta, earliest_locksmith_id, earliest_travel_time, Suc locksmith_count))"
| "keep_earliest ls rs acc = acc"







section \<open>Example inputs\<close>

text \<open>The address of the specification's scenario.\<close>

definition example_address :: pystr where
  "example_address = str ''123 Main Street Apt 4B, Springfield, VA 22150''"

text \<open>The arithmetic without rounding, with the functions of analysis.\<close>

definition radians :: "real \<Rightarrow> real" where
  "radians x = x * pi / 180"

definition atan2 :: "real \<Rightarrow> real \<Rightarrow> real" where
  "atan2 y x =
     (if 0 < x then arctan (y / x)
      else if x < 0 then (if 0 \<le> y then arctan (y / x) + pi else arctan (y / x) - pi)
      else if 0 < y then pi / 2
      else if y < 0 then - pi / 2
      else 0)"

definition exact_arith :: float_arith where
  "exact_arith =
     \<lparr>fl = (\<lambda>x. x), math_radians = radians, math_sin = sin, math_cos = cos, math_sqrt = sqrt,
      math_atan2 = atan2, float_pow2 = (\<lambda>x. x\<^sup>2)\<rparr>"






text \<open>
  Collaborators of a process that cannot get the API credential: the parameter store
  answers with a \<open>ClientError\<close>, and every request to a provider raises.
\<close>

definition no_credentials :: services where
  "no_credentials =
     \<lparr>ssm_get_parameter = (\<lambda>t. Inl ClientError),
      requests_get_geocode = (\<lambda>t a k. Geocode_raises),
      requests_get_route = (\<lambda>t a b k. Routing_raises),
      datetime_now = (\<lambda>t. ''2025-01-01T00:00:00''),
      time_time = (\<lambda>t. 0),
      arith = exact_arith\<rparr>"


text \<open>The state of a fresh process that serves the company \<open>QuickFix\<close>.\<close>

definition fresh_state :: state where
  "fresh_state =
     \<lparr>here_api_key = None, metrics_to_record = [], CURRENT_COMPANY = Some ''QuickFix'', tick = 0,
      resolutions = [], geocode_requests = [], base_address_updates = [], cache_puts = []\<rparr>"

text \<open>The two queued jobs of the specification's workload example.\<close>

definition arrived_job :: job where
  "arrived_job = \<lparr>estimatedTime = Some 20, travelTime = Some 10, arrived = Some True,
     address = None, latitude = None, longitude = None\<rparr>"

definition pending_job :: job where
  "pending_job = \<lparr>estimatedTime = Some 15, travelTime = Some 5, arrived = Some False,
     address = None, latitude = None, longitude = None\<rparr>"

text \<open>A provider that resolves only the address without its unit.\<close>

definition unit_stripped_provider :: services where
  "unit_stripped_provider =
     \<lparr>ssm_get_parameter = (\<lambda>t. Inr ''here-key''),
      requests_get_geocode = (\<lambda>t addr k.
         if addr = str ''123 Main Street , Springfield, VA 22150''
         then Geocode_response 200 [Some (3878 / 100, - 7718 / 100)]
         else Geocode_response 200 []),
      requests_get_route = (\<lambda>t a b k. Routing_raises),
      datetime_now = (\<lambda>t. ''2025-01-01T00:00:00''),
      time_time = (\<lambda>t. 0),
      arith = exact_arith\<rparr>"



text \<open>A parameter store that fails with an exception other than \<open>ClientError\<close>.\<close>

definition parameter_store_unreachable :: services where
  "parameter_store_unreachable =
     \<lparr>ssm_get_parameter = (\<lambda>t. Inl OtherException),
      requests_get_geocode = (\<lambda>t a k. Geocode_raises),
      requests_get_route = (\<lambda>t a b k. Routing_raises),
      datetime_now = (\<lambda>t. ''2025-01-01T00:00:00''),
      time_time = (\<lambda>t. 0),
      arith = exact_arith\<rparr>"

text \<open>Technicians.\<close>

definition busy_locksmith :: locksmith where
  "busy_locksmith =
     \<lparr>locksmithId = Some ''busy'', jobQueue = Some [arrived_job, pending_job], base_address = None\<rparr>"

definition idle_locksmith :: "string \<Rightarrow> locksmith" where
  "idle_locksmith name =
     \<lparr>locksmithId = Some name, jobQueue = Some [],
      base_address = Some \<lparr>base_addr = str ''1 B St'', base_coords = None\<rparr>\<rparr>"



section \<open>The address transforms on the example of the specification\<close>

text \<open>
  C5, as stated: the Normalized transform gives \<open>123 Main St Apt 4b, Springfield, Va 22150\<close>,
  the NoUnit transform \<open>123 Main Street, Springfield, VA 22150\<close> and the StreetZip transform
  \<open>123 Main Street Apt 4B, 22150\<close>. The three do not hold together: \<open>str.title()\<close> starts
  a new word after the digit 4, and removing \<open>Apt 4B\<close> leaves the blank that stood before it.
\<close>

theorem example_variants_as_stated_counterexample:
  "\<not> (normalize_address example_address = str ''123 Main St Apt 4b, Springfield, Va 22150''
      \<and> remove_unit example_address = str ''123 Main Street, Springfield, VA 22150''
      \<and> extract_street_zip example_address = str ''123 Main Street Apt 4B, 22150'')"
  unfolding example_address_def by code_simp

text \<open>
  C5, amended: on \<open>123 Main Street Apt 4B, Springfield, VA 22150\<close> the Normalized
  transform returns \<open>123 Main St Apt 4B, Springfield, Va 22150\<close>, the NoUnit transform
  returns \<open>123 Main Street , Springfield, VA 22150\<close>, and the StreetZip transform returns
  \<open>123 Main Street Apt 4B, 22150\<close>.
\<close>

theorem example_variants:
  "normalize_address example_address = str ''123 Main St Apt 4B, Springfield, Va 22150''
   \<and> remove_unit example_address = str ''123 Main Street , Springfield, VA 22150''
   \<and> extract_street_zip example_address = str ''123 Main Street Apt 4B, 22150''"
  unfolding example_address_def by code_simp

section \<open>The Geocoder\<close>

lemma get_here_api_key_resolutions:
  "get_here_api_key sv (st\<lparr>resolutions := r\<rparr>)
     = (fst (get_here_api_key sv st), (snd (get_here_api_key sv st))\<lparr>resolutions := r\<rparr>)"
  by (simp add: get_here_api_key_def split: sum.splits exn.splits)

subsection \<open>The order of the variants\<close>

lemma try_variations_skip_empty:
  "try_variations sv key vs st = try_variations sv key (filter (\<lambda>x. snd x \<noteq> []) vs) st"
  by (induction sv key vs st rule: try_variations.induct)
     (auto simp: geocode_address_def split: option.splits prod.splits)

lemma upt_Suc_front: "[0..<Suc m] = 0 # map Suc [0..<m]"
  by (simp add: upt_conv_Cons map_Suc_upt del: upt_Suc)

lemma try_variations_first_success:
  assumes "k \<noteq> []" and "\<forall>x\<in>set vs. snd x \<noteq> []" and "n < length vs"
    and "\<forall>i<n. reply_position (requests_get_geocode sv (tick st + 2 * i) (snd (vs ! i)) k) = None"
    and "reply_position (requests_get_geocode sv (tick st + 2 * n) (snd (vs ! n)) k) = Some c"
  shows "try_variations sv (Some k) vs st =
           (Some c,
            st\<lparr>tick := tick st + 2 * Suc n,
               geocode_requests := geocode_requests st @ map snd (take (Suc n) vs),
               metrics_to_record := metrics_to_record st @
                 map (\<lambda>i. \<lparr>variation_type = fst (vs ! i), success = (i = n),
                            timestamp = datetime_now sv (tick st + 2 * i + 1)\<rparr>) [0..<Suc n]\<rparr>)"
  using assms
proof (induction n arbitrary: vs st)
  case 0
  then obtain vt v rest where vs: "vs = (vt, v) # rest" by (cases vs) auto
  with 0 show ?case
    by (simp add: geocode_address_def record_geocoding_success_def)
next
  case (Suc n)
  then obtain vt v rest where vs: "vs = (vt, v) # rest" by (cases vs) auto
  define st' where "st' = record_geocoding_success sv vt False
      (st\<lparr>tick := Suc (tick st), geocode_requests := geocode_requests st @ [v]\<rparr>)"
  have t: "tick st' = tick st + 2"
    by (simp add: st'_def record_geocoding_success_def)
  have miss: "reply_position (requests_get_geocode sv (tick st) v k) = None"
    using Suc.prems(4) vs by (auto dest: spec [of _ 0])
  have step: "try_variations sv (Some k) vs st = try_variations sv (Some k) rest st'"
    using Suc.prems(1,2) miss by (simp add: vs geocode_address_def st'_def)
  have later: "\<forall>i<n. reply_position (requests_get_geocode sv (tick st' + 2 * i) (snd (rest ! i)) k) = None"
  proof (intro allI impI)
    fix i assume "i < n"
    then have "reply_position (requests_get_geocode sv (tick st + 2 * Suc i) (snd (vs ! Suc i)) k) = None"
      using Suc.prems(4) by auto
    then show "reply_position (requests_get_geocode sv (tick st' + 2 * i) (snd (rest ! i)) k) = None"
      by (simp add: t vs add.commute add.left_commute)
  qed
  have hit: "reply_position (requests_get_geocode sv (tick st' + 2 * n) (snd (rest ! n)) k) = Some c"
    using Suc.prems(5) by (simp add: t vs add.commute add.left_commute)
  have IH: "try_variations sv (Some k) rest st' =
           (Some c,
            st'\<lparr>tick := tick st' + 2 * Suc n,
               geocode_requests := geocode_requests st' @ map snd (take (Suc n) rest),
               metrics_to_record := metrics_to_record st' @
                 map (\<lambda>i. \<lparr>variation_type = fst (rest ! i), success = (i = n),
                            timestamp = datetime_now sv (tick st' + 2 * i + 1)\<rparr>) [0..<Suc n]\<rparr>)"
    using Suc.IH [of rest st'] Suc.prems(1,2,3) later hit by (simp add: vs)
  show ?case
    unfolding step IH
    apply (subst (2) upt_Suc_front)
    apply (simp add: st'_def record_geocoding_success_def vs o_def del: upt_Suc)
    done
qed

lemma try_variations_all_fail:
  assumes "k \<noteq> []" and "\<forall>x\<in>set vs. snd x \<noteq> []"
    and "\<forall>i<length vs. reply_position (requests_get_geocode sv (tick st + 2 * i) (snd (vs ! i)) k) = None"
  shows "try_variations sv (Some k) vs st =
           (None,
            st\<lparr>tick := tick st + 2 * length vs,
               geocode_requests := geocode_requests st @ map snd vs,
               metrics_to_record := metrics_to_record st @
                 map (\<lambda>i. \<lparr>variation_type = fst (vs ! i), success = False,
                            timestamp = datetime_now sv (tick st + 2 * i + 1)\<rparr>) [0..<length vs]\<rparr>)"
  using assms
proof (induction vs arbitrary: st)
  case Nil
  then show ?case by simp
next
  case (Cons x rest)
  obtain vt v where x: "x = (vt, v)" by (cases x)
  define st' where "st' = record_geocoding_success sv vt False
      (st\<lparr>tick := Suc (tick st), geocode_requests := geocode_requests st @ [v]\<rparr>)"
  have t: "tick st' = tick st + 2"
    by (simp add: st'_def record_geocoding_success_def)
  have miss: "reply_position (requests_get_geocode sv (tick st) v k) = None"
    using Cons.prems(3) x by (auto dest: spec [of _ 0])
  have step: "try_variations sv (Some k) (x # rest) st = try_variations sv (Some k) rest st'"
    using Cons.prems(1,2) miss by (simp add: x geocode_address_def st'_def)
  have later: "\<forall>i<length rest.
      reply_position (requests_get_geocode sv (tick st' + 2 * i) (snd (rest ! i)) k) = None"
  proof (intro allI impI)
    fix i assume "i < length rest"
    then have "reply_position
        (requests_get_geocode sv (tick st + 2 * Suc i) (snd ((x # rest) ! Suc i)) k) = None"
      using Cons.prems(3) by auto
    then show "reply_position (requests_get_geocode sv (tick st' + 2 * i) (snd (rest ! i)) k) = None"
      by (simp add: t add.commute add.left_commute)
  qed
  have IH: "try_variations sv (Some k) rest st' =
           (None,
            st'\<lparr>tick := tick st' + 2 * length rest,
               geocode_requests := geocode_requests st' @ map snd rest,
               metrics_to_record := metrics_to_record st' @
                 map (\<lambda>i. \<lparr>variation_type = fst (rest ! i), success = False,
                            timestamp = datetime_now sv (tick st' + 2 * i + 1)\<rparr>) [0..<length rest]\<rparr>)"
    using Cons.IH [of st'] Cons.prems(1,2) later by simp
  have len: "[0..<length (x # rest)] = 0 # map Suc [0..<length rest]"
    using upt_Suc_front [of "length rest"] by simp
  show ?case
    unfolding step IH len
    by (simp add: st'_def record_geocoding_success_def x o_def del: upt_Suc)
qed

lemma get_here_api_key_frame:
  "metrics_to_record (snd (get_here_api_key sv st)) = metrics_to_record st"
  "geocode_requests (snd (get_here_api_key sv st)) = geocode_requests st"
  "resolutions (snd (get_here_api_key sv st)) = resolutions st"
  "cache_puts (snd (get_here_api_key sv st)) = cache_puts st"
  "base_address_updates (snd (get_here_api_key sv st)) = base_address_updates st"
  "CURRENT_COMPANY (snd (get_here_api_key sv st)) = CURRENT_COMPANY st"
  by (simp_all add: get_here_api_key_def split: sum.splits exn.splits)

lemma resolve_with_credential:
  assumes "a \<noteq> []" and "get_here_api_key sv st = (Inr (Some k), st1)" and "k \<noteq> []"
  shows "geocode_with_fuzzy_matching sv (Some a) st =
           (case try_variations sv (Some k) (filter (\<lambda>x. snd x \<noteq> []) (variations a))
                   (st1\<lparr>resolutions := resolutions st @ [Some a]\<rparr>) of
              (found, st2) \<Rightarrow> (Inr found, st2))"
  using assms
  by (simp add: geocode_with_fuzzy_matching_def Let_def get_here_api_key_resolutions truthy_def
      try_variations_skip_empty [symmetric])

text \<open>
  C4: for a non-empty address and an available credential, \<open>geocode_with_fuzzy_matching\<close>
  tries the variants in the order Original, Normalized, NoUnit, NoSecondary, StreetCityState,
  StreetZip, skipping the empty ones (\<open>vs\<close> is the list of the non-empty ones). When the
  provider resolves the variant at position \<open>n\<close> of \<open>vs\<close> and none before it, the result is
  the position of that variant, the requests sent are exactly the variants up to \<open>n\<close>, and one
  metric event is recorded per attempt, tagged with the type of the variant, failed for the
  attempts before \<open>n\<close> and successful for \<open>n\<close>. When the provider resolves none, the result is
  \<open>None\<close> and every variant has one request and one failed event. The instance below is the
  scenario of the claim: Original and Normalized fail, NoUnit succeeds, three events.
\<close>

theorem resolve_tries_variants_in_order:
  assumes "a \<noteq> []" and "get_here_api_key sv st = (Inr (Some k), st1)" and "k \<noteq> []"
    and "vs = filter (\<lambda>x. snd x \<noteq> []) (variations a)"
  shows "variations a =
           [(ORIGINAL, a), (NORMALIZED, normalize_address a), (NO_UNIT, remove_unit a),
            (NO_SECONDARY, remove_secondary a),
            (STREET_CITY_STATE, extract_street_city_state a),
            (STREET_ZIP, extract_street_zip a)]
       \<and> (\<forall>n c. n < length vs
             \<and> (\<forall>i<n. reply_position
                        (requests_get_geocode sv (tick st1 + 2 * i) (snd (vs ! i)) k) = None)
             \<and> reply_position (requests_get_geocode sv (tick st1 + 2 * n) (snd (vs ! n)) k) = Some c
             \<longrightarrow>
               fst (geocode_with_fuzzy_matching sv (Some a) st) = Inr (Some c)
             \<and> geocode_requests (snd (geocode_with_fuzzy_matching sv (Some a) st))
                 = geocode_requests st @ map snd (take (Suc n) vs)
             \<and> metrics_to_record (snd (geocode_with_fuzzy_matching sv (Some a) st))
                 = metrics_to_record st @
                   map (\<lambda>i. \<lparr>variation_type = fst (vs ! i), success = (i = n),
                              timestamp = datetime_now sv (tick st1 + 2 * i + 1)\<rparr>) [0..<Suc n])
       \<and> ((\<forall>i<length vs. reply_position
                        (requests_get_geocode sv (tick st1 + 2 * i) (snd (vs ! i)) k) = None)
             \<longrightarrow>
               fst (geocode_with_fuzzy_matching sv (Some a) st) = Inr None
             \<and> geocode_requests (snd (geocode_with_fuzzy_matching sv (Some a) st))
                 = geocode_requests st @ map snd vs
             \<and> metrics_to_record (snd (geocode_with_fuzzy_matching sv (Some a) st))
                 = metrics_to_record st @
                   map (\<lambda>i. \<lparr>variation_type = fst (vs ! i), success = False,
                              timestamp = datetime_now sv (tick st1 + 2 * i + 1)\<rparr>)
                     [0..<length vs])"
proof -
  define st1' where "st1' = st1\<lparr>resolutions := resolutions st @ [Some a]\<rparr>"
  have nonempty: "\<forall>x\<in>set vs. snd x \<noteq> []"
    by (simp add: assms(4))
  have frame: "metrics_to_record st1 = metrics_to_record st" "geocode_requests st1 = geocode_requests st"
    using get_here_api_key_frame(1,2) [of sv st] assms(2) by simp_all
  have run: "geocode_with_fuzzy_matching sv (Some a) st =
           (case try_variations sv (Some k) vs st1' of (found, st2) \<Rightarrow> (Inr found, st2))"
    unfolding assms(4) st1'_def by (rule resolve_with_credential [OF assms(1,2,3)])
  have t: "tick st1' = tick st1" "metrics_to_record st1' = metrics_to_record st"
      "geocode_requests st1' = geocode_requests st"
    by (simp_all add: st1'_def frame)
  have order: "variations a =
           [(ORIGINAL, a), (NORMALIZED, normalize_address a), (NO_UNIT, remove_unit a),
            (NO_SECONDARY, remove_secondary a),
            (STREET_CITY_STATE, extract_street_city_state a),
            (STREET_ZIP, extract_street_zip a)]"
    by (simp add: variations_def)
  have hit: "fst (geocode_with_fuzzy_matching sv (Some a) st) = Inr (Some c)
             \<and> geocode_requests (snd (geocode_with_fuzzy_matching sv (Some a) st))
                 = geocode_requests st @ map snd (take (Suc n) vs)
             \<and> metrics_to_record (snd (geocode_with_fuzzy_matching sv (Some a) st))
                 = metrics_to_record st @
                   map (\<lambda>i. \<lparr>variation_type = fst (vs ! i), success = (i = n),
                              timestamp = datetime_now sv (tick st1 + 2 * i + 1)\<rparr>) [0..<Suc n]"
    if "n < length vs"
      and "\<forall>i<n. reply_position (requests_get_geocode sv (tick st1 + 2 * i) (snd (vs ! i)) k) = None"
      and "reply_position (requests_get_geocode sv (tick st1 + 2 * n) (snd (vs ! n)) k) = Some c"
    for n c
    using try_variations_first_success [of k vs n sv st1' c] that nonempty assms(3)
    by (simp add: run t del: upt_Suc)
  have miss: "fst (geocode_with_fuzzy_matching sv (Some a) st) = Inr None
             \<and> geocode_requests (snd (geocode_with_fuzzy_matching sv (Some a) st))
                 = geocode_requests st @ map snd vs
             \<and> metrics_to_record (snd (geocode_with_fuzzy_matching sv (Some a) st))
                 = metrics_to_record st @
                   map (\<lambda>i. \<lparr>variation_type = fst (vs ! i), success = False,
                              timestamp = datetime_now sv (tick st1 + 2 * i + 1)\<rparr>)
                     [0..<length vs]"
    if "\<forall>i<length vs. reply_position
                        (requests_get_geocode sv (tick st1 + 2 * i) (snd (vs ! i)) k) = None"
    using try_variations_all_fail [of k vs sv st1'] that nonempty assms(3)
    by (simp add: run t del: upt_Suc)
  show ?thesis
    using order hit miss by blast
qed

lemma example_variations:
  "filter (\<lambda>x. snd x \<noteq> []) (variations example_address) =
     [(ORIGINAL, str ''123 Main Street Apt 4B, Springfield, VA 22150''),
      (NORMALIZED, str ''123 Main St Apt 4B, Springfield, Va 22150''),
      (NO_UNIT, str ''123 Main Street , Springfield, VA 22150''),
      (NO_SECONDARY, str ''123 Main Street Apt 4B''),
      (STREET_CITY_STATE, str ''123 Main Street Apt 4B, Springfield, VA''),
      (STREET_ZIP, str ''123 Main Street Apt 4B, 22150'')]"
  unfolding example_address_def by code_simp

theorem resolve_tries_variants_in_order_witness:
  "fst (geocode_with_fuzzy_matching unit_stripped_provider (Some example_address) fresh_state)
     = Inr (Some (3878 / 100, - 7718 / 100))
   \<and> geocode_requests
        (snd (geocode_with_fuzzy_matching unit_stripped_provider (Some example_address) fresh_state))
     = [str ''123 Main Street Apt 4B, Springfield, VA 22150'',
        str ''123 Main St Apt 4B, Springfield, Va 22150'',
        str ''123 Main Street , Springfield, VA 22150'']
   \<and> map (\<lambda>m. (variation_type m, success m))
        (metrics_to_record
          (snd (geocode_with_fuzzy_matching unit_stripped_provider (Some example_address) fresh_state)))
     = [(ORIGINAL, False), (NORMALIZED, False), (NO_UNIT, True)]"
proof -
  define vs where "vs = filter (\<lambda>x. snd x \<noteq> []) (variations example_address)"
  define st1 where "st1 = fresh_state\<lparr>here_api_key := Some ''here-key'', tick := Suc 0\<rparr>"
  have vs: "vs =
     [(ORIGINAL, str ''123 Main Street Apt 4B, Springfield, VA 22150''),
      (NORMALIZED, str ''123 Main St Apt 4B, Springfield, Va 22150''),
      (NO_UNIT, str ''123 Main Street , Springfield, VA 22150''),
      (NO_SECONDARY, str ''123 Main Street Apt 4B''),
      (STREET_CITY_STATE, str ''123 Main Street Apt 4B, Springfield, VA''),
      (STREET_ZIP, str ''123 Main Street Apt 4B, 22150'')]"
    unfolding vs_def by (rule example_variations)
  have a: "example_address \<noteq> []"
    unfolding example_address_def by code_simp
  have key: "get_here_api_key unit_stripped_provider fresh_state = (Inr (Some ''here-key''), st1)"
    by (simp add: get_here_api_key_def unit_stripped_provider_def fresh_state_def truthy_def st1_def)
  have d1: "str ''123 Main Street Apt 4B, Springfield, VA 22150''
              \<noteq> str ''123 Main Street , Springfield, VA 22150''"
    by code_simp
  have d2: "str ''123 Main St Apt 4B, Springfield, Va 22150''
              \<noteq> str ''123 Main Street , Springfield, VA 22150''"
    by code_simp
  have miss: "\<forall>i<2. reply_position
      (requests_get_geocode unit_stripped_provider (tick st1 + 2 * i) (snd (vs ! i)) ''here-key'') = None"
    using d1 d2
    by (auto simp: less_Suc_eq numeral_2_eq_2 vs unit_stripped_provider_def reply_position_def)
  have hit: "reply_position
      (requests_get_geocode unit_stripped_provider (tick st1 + 2 * 2) (snd (vs ! 2)) ''here-key'')
        = Some (3878 / 100, - 7718 / 100)"
    by (simp add: vs unit_stripped_provider_def reply_position_def)
  have n: "2 < length vs" by (simp add: vs)
  have k: "''here-key'' \<noteq> []" by simp
  have "fst (geocode_with_fuzzy_matching unit_stripped_provider (Some example_address) fresh_state)
          = Inr (Some (3878 / 100, - 7718 / 100))
        \<and> geocode_requests
            (snd (geocode_with_fuzzy_matching unit_stripped_provider (Some example_address) fresh_state))
          = geocode_requests fresh_state @ map snd (take (Suc 2) vs)
        \<and> metrics_to_record
            (snd (geocode_with_fuzzy_matching unit_stripped_provider (Some example_address) fresh_state))
          = metrics_to_record fresh_state @
              map (\<lambda>i. \<lparr>variation_type = fst (vs ! i), success = (i = 2),
                         timestamp = datetime_now unit_stripped_provider (tick st1 + 2 * i + 1)\<rparr>)
                [0..<Suc 2]"
    using resolve_tries_variants_in_order [OF a key k vs_def] n miss hit by blast
  then show ?thesis
    by (simp add: vs fresh_state_def upt_rec numeral_2_eq_2 numeral_3_eq_3)
qed

subsection \<open>What a resolution leaves unchanged\<close>



subsection \<open>No address, no credential\<close>

lemma get_here_api_key_result:
  "fst (get_here_api_key sv st) =
     (if truthy (here_api_key st) then Inr (here_api_key st)
      else case ssm_get_parameter sv (tick st) of
             Inr v \<Rightarrow> Inr (Some v)
           | Inl ClientError \<Rightarrow> Inr None
           | Inl e \<Rightarrow> Inl e)"
  by (simp add: get_here_api_key_def split: sum.splits exn.splits)

lemma resolve_without_address:
  assumes "\<not> truthy original_address"
  shows "fst (geocode_with_fuzzy_matching sv original_address st) = Inr None
       \<and> metrics_to_record (snd (geocode_with_fuzzy_matching sv original_address st))
           = metrics_to_record st
       \<and> geocode_requests (snd (geocode_with_fuzzy_matching sv original_address st))
           = geocode_requests st"
  using assms
  by (auto simp: geocode_with_fuzzy_matching_def truthy_def Let_def split: option.splits)

lemma resolve_without_credential:
  assumes "truthy original_address" and "fst (get_here_api_key sv st) = Inr api_key"
    and "\<not> truthy api_key"
  shows "fst (geocode_with_fuzzy_matching sv original_address st) = Inr None
       \<and> metrics_to_record (snd (geocode_with_fuzzy_matching sv original_address st))
           = metrics_to_record st
       \<and> geocode_requests (snd (geocode_with_fuzzy_matching sv original_address st))
           = geocode_requests st"
proof -
  obtain a where a: "original_address = Some a" "a \<noteq> []"
    using assms(1) by (auto simp: truthy_def split: option.splits)
  show ?thesis
    using assms(2,3) get_here_api_key_frame(1,2) [of sv st]
    by (simp add: geocode_with_fuzzy_matching_def Let_def a get_here_api_key_resolutions)
qed

lemma resolve_credential_raises:
  assumes "truthy original_address" and "fst (get_here_api_key sv st) = Inl e"
  shows "fst (geocode_with_fuzzy_matching sv original_address st) = Inl e
       \<and> metrics_to_record (snd (geocode_with_fuzzy_matching sv original_address st))
           = metrics_to_record st
       \<and> geocode_requests (snd (geocode_with_fuzzy_matching sv original_address st))
           = geocode_requests st"
proof -
  obtain a where a: "original_address = Some a" "a \<noteq> []"
    using assms(1) by (auto simp: truthy_def split: option.splits)
  show ?thesis
    using assms(2) get_here_api_key_frame(1,2) [of sv st]
    by (simp add: geocode_with_fuzzy_matching_def Let_def a get_here_api_key_resolutions)
qed

text \<open>
  C10, as stated: when no API credential can be obtained, \<open>geocode_with_fuzzy_matching\<close>
  returns \<open>None\<close>. \<open>get_here_api_key\<close> is called outside every \<open>try\<close> and catches
  \<open>ClientError\<close> only: when the parameter store fails with another exception, no credential
  is obtained and the resolution raises that exception instead of returning.
\<close>

theorem resolve_raises_counterexample:
  "fst (get_here_api_key parameter_store_unreachable fresh_state) = Inl OtherException
   \<and> fst (geocode_with_fuzzy_matching parameter_store_unreachable (Some (str ''1 A St''))
            fresh_state) = Inl OtherException"
  by (simp add: geocode_with_fuzzy_matching_def get_here_api_key_def truthy_def
      parameter_store_unreachable_def fresh_state_def str_def Let_def)

text \<open>
  C10, amended: when \<open>geocode_with_fuzzy_matching\<close> is called with an empty or missing
  address, or when \<open>get_here_api_key\<close> returns no credential (nothing is cached and the
  parameter store answers with a \<open>ClientError\<close> or an empty value), it returns \<open>None\<close>, the
  metrics buffer is unchanged and no request has been sent to the geocoding provider. When
  \<open>get_here_api_key\<close> raises (nothing is cached and the parameter store fails with an exception
  other than \<open>ClientError\<close>), the resolution raises that exception; the metrics buffer is
  unchanged there too.
\<close>

theorem resolve_without_address_or_credential:
  "(\<not> truthy original_address
      \<or> (\<exists>api_key. fst (get_here_api_key sv st) = Inr api_key \<and> \<not> truthy api_key)
      \<or> (\<not> truthy (here_api_key st)
          \<and> (ssm_get_parameter sv (tick st) = Inl ClientError
             \<or> ssm_get_parameter sv (tick st) = Inr []))
    \<longrightarrow> fst (geocode_with_fuzzy_matching sv original_address st) = Inr None
      \<and> metrics_to_record (snd (geocode_with_fuzzy_matching sv original_address st))
          = metrics_to_record st
      \<and> geocode_requests (snd (geocode_with_fuzzy_matching sv original_address st))
          = geocode_requests st)
   \<and> (\<forall>e. truthy original_address \<and> \<not> truthy (here_api_key st)
        \<and> ssm_get_parameter sv (tick st) = Inl e \<and> e \<noteq> ClientError
    \<longrightarrow> fst (get_here_api_key sv st) = Inl e
      \<and> fst (geocode_with_fuzzy_matching sv original_address st) = Inl e
      \<and> metrics_to_record (snd (geocode_with_fuzzy_matching sv original_address st))
          = metrics_to_record st
      \<and> geocode_requests (snd (geocode_with_fuzzy_matching sv original_address st))
          = geocode_requests st)"
proof -
  let ?unchanged = "fst (geocode_with_fuzzy_matching sv original_address st) = Inr None
      \<and> metrics_to_record (snd (geocode_with_fuzzy_matching sv original_address st))
          = metrics_to_record st
      \<and> geocode_requests (snd (geocode_with_fuzzy_matching sv original_address st))
          = geocode_requests st"
  have none: ?unchanged
    if "\<exists>api_key. fst (get_here_api_key sv st) = Inr api_key \<and> \<not> truthy api_key"
  proof (cases "truthy original_address")
    case True
    then show ?thesis
      using that resolve_without_credential [of original_address sv st] by blast
  next
    case False
    then show ?thesis
      by (rule resolve_without_address)
  qed
  have A: "\<not> truthy original_address
      \<or> (\<exists>api_key. fst (get_here_api_key sv st) = Inr api_key \<and> \<not> truthy api_key)
      \<or> (\<not> truthy (here_api_key st)
          \<and> (ssm_get_parameter sv (tick st) = Inl ClientError
             \<or> ssm_get_parameter sv (tick st) = Inr []))
    \<longrightarrow> ?unchanged"
  proof (intro impI, elim disjE conjE)
    assume "\<not> truthy original_address"
    then show ?unchanged
      by (rule resolve_without_address)
  next
    assume "\<exists>api_key. fst (get_here_api_key sv st) = Inr api_key \<and> \<not> truthy api_key"
    then show ?unchanged
      by (rule none)
  next
    assume "\<not> truthy (here_api_key st)" and "ssm_get_parameter sv (tick st) = Inl ClientError"
    then have "\<exists>api_key. fst (get_here_api_key sv st) = Inr api_key \<and> \<not> truthy api_key"
      by (simp add: get_here_api_key_result truthy_def)
    then show ?unchanged
      by (rule none)
  next
    assume "\<not> truthy (here_api_key st)" and "ssm_get_parameter sv (tick st) = Inr []"
    then have "\<exists>api_key. fst (get_here_api_key sv st) = Inr api_key \<and> \<not> truthy api_key"
      by (simp add: get_here_api_key_result truthy_def)
    then show ?unchanged
      by (rule none)
  qed
  have B: "\<forall>e. truthy original_address \<and> \<not> truthy (here_api_key st)
        \<and> ssm_get_parameter sv (tick st) = Inl e \<and> e \<noteq> ClientError
    \<longrightarrow> fst (get_here_api_key sv st) = Inl e
      \<and> fst (geocode_with_fuzzy_matching sv original_address st) = Inl e
      \<and> metrics_to_record (snd (geocode_with_fuzzy_matching sv original_address st))
          = metrics_to_record st
      \<and> geocode_requests (snd (geocode_with_fuzzy_matching sv original_address st))
          = geocode_requests st"
  proof (intro allI impI, elim conjE)
    fix e
    assume t: "truthy original_address" and c: "\<not> truthy (here_api_key st)"
      and s: "ssm_get_parameter sv (tick st) = Inl e" and e: "e \<noteq> ClientError"
    from c s e have k: "fst (get_here_api_key sv st) = Inl e"
      by (cases e) (simp_all add: get_here_api_key_result)
    show "fst (get_here_api_key sv st) = Inl e
      \<and> fst (geocode_with_fuzzy_matching sv original_address st) = Inl e
      \<and> metrics_to_record (snd (geocode_with_fuzzy_matching sv original_address st))
          = metrics_to_record st
      \<and> geocode_requests (snd (geocode_with_fuzzy_matching sv original_address st))
          = geocode_requests st"
      using k resolve_credential_raises [OF t k] by blast
  qed
  show ?thesis
    by (rule conjI [OF A B])
qed

theorem resolve_without_address_or_credential_witness:
  "fst (geocode_with_fuzzy_matching no_credentials (Some []) fresh_state) = Inr None
   \<and> metrics_to_record (snd (geocode_with_fuzzy_matching no_credentials (Some []) fresh_state)) = []
   \<and> fst (geocode_with_fuzzy_matching no_credentials (Some (str ''1 A St'')) fresh_state) = Inr None
   \<and> metrics_to_record (snd (geocode_with_fuzzy_matching no_credentials (Some (str ''1 A St'')) fresh_state)) = []
   \<and> geocode_requests (snd (geocode_with_fuzzy_matching no_credentials (Some (str ''1 A St'')) fresh_state)) = []"
proof -
  have 1: "\<not> truthy (Some ([]::nat list))"
    by (simp add: truthy_def)
  have 2: "truthy (Some (str ''1 A St''))"
    by (simp add: truthy_def str_def)
  have 3: "\<not> truthy (here_api_key fresh_state)"
    "ssm_get_parameter no_credentials (tick fresh_state) = Inl ClientError"
    "metrics_to_record fresh_state = []" "geocode_requests fresh_state = []"
    by (simp_all add: truthy_def fresh_state_def no_credentials_def)
  show ?thesis
    using resolve_without_address_or_credential [of "Some []" no_credentials fresh_state]
      resolve_without_address_or_credential [of "Some (str ''1 A St'')" no_credentials fresh_state]
      1 2 3
    by simp
qed

section \<open>The Travel Estimator: the haversine fallback\<close>






























section \<open>The Travel Estimator: minutes, and the exceptions it can raise\<close>











section \<open>The Availability Calculator: workload and ETA\<close>




text \<open>
  C3: for a technician with an empty job queue: with a base location cached on the record
  the ETA is the travel estimate from that location to the target, the workload being 0;
  with none cached and a base address configured for the company, that address is geocoded
  (and stored on the record when found) and the ETA is the travel estimate from it; with
  none cached and none configured the result is (infinity, 0) and nothing else happens.
\<close>

theorem idle_technician_eta:
  assumes "jobQueue l = None \<or> jobQueue l = Some []"
  shows "(\<forall>b. base_address l = Some b \<longrightarrow>
            calculate_locksmith_eta sv l new_job_address new_job_coords st =
              (case calculate_travel_time_with_coords sv (Some (base_addr b)) new_job_address
                      (base_coords b) new_job_coords st of
                 (Inl e, st') \<Rightarrow> (Inl e, st')
               | (Inr travel_time, st') \<Rightarrow>
                   (Inr (Finite (real_of_int travel_time), travel_time), st')))
       \<and> (\<forall>a. base_address l = None \<and> configured_base_address (CURRENT_COMPANY st) = Some a
               \<and> a \<noteq> [] \<longrightarrow>
            calculate_locksmith_eta sv l new_job_address new_job_coords st =
              (case geocode_with_fuzzy_matching sv (Some a) st of
                 (Inl e, st1) \<Rightarrow> (Inl e, st1)
               | (Inr found, st1) \<Rightarrow>
                   (case calculate_travel_time_with_coords sv (Some a) new_job_address
                           found new_job_coords
                           (case found of
                              None \<Rightarrow> st1
                            | Some c \<Rightarrow>
                                store_base_address (CURRENT_COMPANY st)
                                  (case locksmithId l of None \<Rightarrow> ''unknown'' | Some i \<Rightarrow> i)
                                  \<lparr>base_addr = a, base_coords = Some c\<rparr> st1) of
                      (Inl e, st') \<Rightarrow> (Inl e, st')
                    | (Inr travel_time, st') \<Rightarrow>
                        (Inr (Finite (real_of_int travel_time), travel_time), st'))))
       \<and> (base_address l = None \<and> \<not> truthy (configured_base_address (CURRENT_COMPANY st)) \<longrightarrow>
            calculate_locksmith_eta sv l new_job_address new_job_coords st
              = (Inr (Infinity, 0), st))"
proof -
  have q: "(case jobQueue l of None \<Rightarrow> [] | Some q \<Rightarrow> q) = []"
    using assms by auto
  show ?thesis
    unfolding calculate_locksmith_eta_def Let_def q
    by (auto simp: eta_result_def truthy_def split: option.splits prod.splits sum.splits)
qed

theorem idle_technician_eta_witness:
  "fst (calculate_locksmith_eta no_credentials
          \<lparr>locksmithId = Some ''L1'', jobQueue = Some [],
           base_address = Some \<lparr>base_addr = str ''1 B St'', base_coords = None\<rparr>\<rparr>
          (Some (str ''1 A St'')) None fresh_state) = Inr (Finite 30, 30)
   \<and> fst (calculate_locksmith_eta no_credentials
          \<lparr>locksmithId = Some ''L2'', jobQueue = None, base_address = None\<rparr>
          (Some (str ''1 A St'')) None fresh_state) = Inr (Finite 30, 30)
   \<and> calculate_locksmith_eta no_credentials
          \<lparr>locksmithId = Some ''L3'', jobQueue = None, base_address = None\<rparr>
          (Some (str ''1 A St'')) None (fresh_state\<lparr>CURRENT_COMPANY := Some ''Nobody''\<rparr>)
       = (Inr (Infinity, 0), fresh_state\<lparr>CURRENT_COMPANY := Some ''Nobody''\<rparr>)"
  using idle_technician_eta [of
      "\<lparr>locksmithId = Some ''L1'', jobQueue = Some [],
           base_address = Some \<lparr>base_addr = str ''1 B St'', base_coords = None\<rparr>\<rparr>"
      no_credentials "Some (str ''1 A St'')" None fresh_state]
    idle_technician_eta [of "\<lparr>locksmithId = Some ''L2'', jobQueue = None, base_address = None\<rparr>"
      no_credentials "Some (str ''1 A St'')" None fresh_state]
    idle_technician_eta [of "\<lparr>locksmithId = Some ''L3'', jobQueue = None, base_address = None\<rparr>"
      no_credentials "Some (str ''1 A St'')" None "fresh_state\<lparr>CURRENT_COMPANY := Some ''Nobody''\<rparr>"]
  by (simp add: calculate_travel_time_with_coords_def calculate_travel_time_fallback_def
      coords_or_geocode_def geocode_with_fuzzy_matching_def get_here_api_key_def truthy_def
      no_credentials_def fresh_state_def str_def Let_def configured_base_address_def
      LOCKSMITH_BASE_ADDRESSES_def)

section \<open>The Dispatcher: the first minimum\<close>

lemma float_less_irrefl: "\<not> float_less a a"
  by (cases a) simp_all

lemma float_less_trans: "float_less a b \<Longrightarrow> float_less b c \<Longrightarrow> float_less a c"
  by (cases a; cases b; cases c) simp_all

lemma float_less_asym: "float_less a b \<Longrightarrow> \<not> float_less b a"
  by (cases a; cases b) simp_all

lemma float_less_not_trans: "float_less a b \<Longrightarrow> \<not> float_less c b \<Longrightarrow> float_less a c"
  by (cases a; cases b; cases c) simp_all

lemma float_less_Infinity: "float_less a Infinity \<longleftrightarrow> a \<noteq> Infinity"
  by (cases a) simp_all

lemma evaluate_all_length:
  "evaluate_all sv a c ls st = (Inr rs, st') \<Longrightarrow> length rs = length ls"
  by (induction ls arbitrary: st rs) (auto split: prod.splits sum.splits)

lemma locksmith_loop_evaluate_all:
  "locksmith_loop sv a c ls acc st =
     (case evaluate_all sv a c ls st of
        (Inl e, st') \<Rightarrow> (Inl e, st')
      | (Inr rs, st') \<Rightarrow> (Inr (keep_earliest ls rs acc), st'))"
proof (induction ls arbitrary: acc st)
  case Nil
  then show ?case by simp
next
  case (Cons l ls)
  obtain e i t n where acc: "acc = (e, i, t, n)" by (cases acc)
  show ?case
    by (simp add: acc Cons.IH split: prod.splits sum.splits)
qed

lemma keep_earliest_spec:
  assumes "length rs = length ls"
    and "keep_earliest ls rs (e0, i0, t0, n0) = (e, i, t, n)"
  shows "((\<forall>j<length rs. \<not> float_less (fst (rs ! j)) e0) \<and> e = e0 \<and> i = i0 \<and> t = t0)
       \<or> (\<exists>k<length rs. float_less (fst (rs ! k)) e0
             \<and> e = fst (rs ! k) \<and> i = locksmithId (ls ! k) \<and> t = snd (rs ! k)
             \<and> (\<forall>j<length rs. \<not> float_less (fst (rs ! j)) e)
             \<and> (\<forall>j<k. float_less e (fst (rs ! j))))"
  using assms
proof (induction ls arbitrary: rs e0 i0 t0 n0)
  case Nil
  then show ?case by simp
next
  case (Cons l ls)
  then obtain eta tt rest where rs: "rs = (eta, tt) # rest" by (cases rs) auto
  have len: "length rest = length ls" using Cons.prems(1) rs by simp
  show ?case
  proof (cases "float_less eta e0")
    case True
    then have run: "keep_earliest ls rest (eta, locksmithId l, tt, Suc n0) = (e, i, t, n)"
      using Cons.prems(2) rs by simp
    from Cons.IH [OF len run] show ?thesis
    proof (elim disjE conjE exE)
      assume none: "\<forall>j<length rest. \<not> float_less (fst (rest ! j)) eta"
        and "e = eta" "i = locksmithId l" "t = tt"
      then have "\<forall>j<length rs. \<not> float_less (fst (rs ! j)) e"
        by (auto simp: rs nth_Cons float_less_irrefl split: nat.splits)
      moreover have "float_less (fst (rs ! 0)) e0" "e = fst (rs ! 0)" "i = locksmithId ((l # ls) ! 0)"
        "t = snd (rs ! 0)" "0 < length rs"
        using True \<open>e = eta\<close> \<open>i = locksmithId l\<close> \<open>t = tt\<close> by (simp_all add: rs)
      ultimately show ?thesis by blast
    next
      fix k
      assume k: "k < length rest" "float_less (fst (rest ! k)) eta"
        and res: "e = fst (rest ! k)" "i = locksmithId (ls ! k)" "t = snd (rest ! k)"
        and min: "\<forall>j<length rest. \<not> float_less (fst (rest ! j)) e"
        and first: "\<forall>j<k. float_less e (fst (rest ! j))"
      have "float_less e e0" using k(2) True res(1) float_less_trans by blast
      moreover have "\<forall>j<length rs. \<not> float_less (fst (rs ! j)) e"
        using min k(2) res(1) by (auto simp: rs nth_Cons float_less_asym split: nat.splits)
      moreover have "\<forall>j<Suc k. float_less e (fst (rs ! j))"
        using first k(2) res(1) by (auto simp: rs nth_Cons split: nat.splits)
      moreover have "Suc k < length rs" "e = fst (rs ! Suc k)" "i = locksmithId ((l # ls) ! Suc k)"
        "t = snd (rs ! Suc k)"
        using k(1) res by (simp_all add: rs)
      ultimately show ?thesis by blast
    qed
  next
    case False
    then have run: "keep_earliest ls rest (e0, i0, t0, Suc n0) = (e, i, t, n)"
      using Cons.prems(2) rs by simp
    from Cons.IH [OF len run] show ?thesis
    proof (elim disjE conjE exE)
      assume "\<forall>j<length rest. \<not> float_less (fst (rest ! j)) e0" "e = e0" "i = i0" "t = t0"
      then show ?thesis
        using False by (auto simp: rs nth_Cons split: nat.splits)
    next
      fix k
      assume k: "k < length rest" "float_less (fst (rest ! k)) e0"
        and res: "e = fst (rest ! k)" "i = locksmithId (ls ! k)" "t = snd (rest ! k)"
        and min: "\<forall>j<length rest. \<not> float_less (fst (rest ! j)) e"
        and first: "\<forall>j<k. float_less e (fst (rest ! j))"
      have e_eta: "float_less e eta"
        using k(2) res(1) False float_less_not_trans by blast
      have "\<forall>j<length rs. \<not> float_less (fst (rs ! j)) e"
        using min e_eta by (auto simp: rs nth_Cons float_less_asym split: nat.splits)
      moreover have "\<forall>j<Suc k. float_less e (fst (rs ! j))"
        using first e_eta by (auto simp: rs nth_Cons split: nat.splits)
      moreover have "Suc k < length rs" "e = fst (rs ! Suc k)" "i = locksmithId ((l # ls) ! Suc k)"
        "t = snd (rs ! Suc k)" "float_less (fst (rs ! Suc k)) e0"
        using k res by (simp_all add: rs)
      ultimately show ?thesis by blast
    qed
  qed
qed

text \<open>
  C1: for a non-empty list of technicians, when the resolution of the target and the
  evaluations of the technicians return (\<open>rs\<close> are the ETAs and travel times in the order of
  the list), \<open>find_earliest_locksmith\<close> returns the identifier of the first technician whose
  ETA is the minimum: no ETA is smaller, and every earlier one is strictly greater. When every
  ETA is infinite it returns \<open>None\<close>. In both cases \<open>update_next_available_cache\<close> is called
  afterwards with the selected identifier and its travel time, and attempts one write.
\<close>

theorem dispatcher_selects_first_minimum:
  assumes "locksmiths \<noteq> []"
    and "geocode_with_fuzzy_matching sv new_job_address st = (Inr new_job_coords, st1)"
    and "evaluate_all sv new_job_address new_job_coords locksmiths st1 = (Inr rs, st2)"
  shows "\<exists>winner eta travel_time.
           find_earliest_locksmith sv locksmiths new_job_address st =
             (Inr (winner, eta),
              update_next_available_cache sv (CURRENT_COMPANY st) winner travel_time
                new_job_coords new_job_address st2)
         \<and> cache_puts (snd (find_earliest_locksmith sv locksmiths new_job_address st)) =
             cache_puts st2 @
               [\<lparr>companyName = CURRENT_COMPANY st, cache_locksmithId = winner,
                 cache_travelTime = travel_time, ttl = time_time sv (tick st2) + 300,
                 jobAddress = (if truthy new_job_address then new_job_address else None),
                 cache_coords = new_job_coords\<rparr>]
         \<and> length rs = length locksmiths
         \<and> ((\<forall>j<length rs. fst (rs ! j) = Infinity) \<longrightarrow>
               winner = None \<and> eta = Infinity \<and> travel_time = 0)
         \<and> (\<not> (\<forall>j<length rs. fst (rs ! j) = Infinity) \<longrightarrow>
               (\<exists>k<length locksmiths.
                   winner = locksmithId (locksmiths ! k) \<and> eta = fst (rs ! k)
                 \<and> travel_time = snd (rs ! k)
                 \<and> (\<forall>j<length rs. \<not> float_less (fst (rs ! j)) eta)
                 \<and> (\<forall>j<k. float_less eta (fst (rs ! j)))))"
proof -
  obtain eta winner travel_time n
    where kept: "keep_earliest locksmiths rs (Infinity, None, 0, 0) = (eta, winner, travel_time, n)"
    by (cases "keep_earliest locksmiths rs (Infinity, None, 0, 0)") auto
  have len: "length rs = length locksmiths"
    using assms(3) by (rule evaluate_all_length)
  have run: "find_earliest_locksmith sv locksmiths new_job_address st =
             (Inr (winner, eta),
              update_next_available_cache sv (CURRENT_COMPANY st) winner travel_time
                new_job_coords new_job_address st2)"
    using assms kept
    by (simp add: find_earliest_locksmith_def locksmith_loop_evaluate_all)
  have puts: "cache_puts (snd (find_earliest_locksmith sv locksmiths new_job_address st)) =
             cache_puts st2 @
               [\<lparr>companyName = CURRENT_COMPANY st, cache_locksmithId = winner,
                 cache_travelTime = travel_time, ttl = time_time sv (tick st2) + 300,
                 jobAddress = (if truthy new_job_address then new_job_address else None),
                 cache_coords = new_job_coords\<rparr>]"
    unfolding run by (simp add: update_next_available_cache_def)
  note spec = keep_earliest_spec [OF len kept]
  have none: "winner = None \<and> eta = Infinity \<and> travel_time = 0"
    if "\<forall>j<length rs. fst (rs ! j) = Infinity"
    using spec that by (auto simp: float_less_Infinity)
  have some: "\<exists>k<length locksmiths.
                   winner = locksmithId (locksmiths ! k) \<and> eta = fst (rs ! k)
                 \<and> travel_time = snd (rs ! k)
                 \<and> (\<forall>j<length rs. \<not> float_less (fst (rs ! j)) eta)
                 \<and> (\<forall>j<k. float_less eta (fst (rs ! j)))"
    if "\<not> (\<forall>j<length rs. fst (rs ! j) = Infinity)"
    using spec that unfolding len by (auto simp: float_less_Infinity)
  show ?thesis
    using run puts len none some by blast
qed

theorem dispatcher_selects_first_minimum_witness:
  "fst (evaluate_all no_credentials (Some (str ''1 A St'')) None
          [busy_locksmith, idle_locksmith ''idle-1'', idle_locksmith ''idle-2'']
          (snd (geocode_with_fuzzy_matching no_credentials (Some (str ''1 A St'')) fresh_state)))
     = Inr [(Finite 70, 30), (Finite 30, 30), (Finite 30, 30)]
   \<and> fst (find_earliest_locksmith no_credentials
          [busy_locksmith, idle_locksmith ''idle-1'', idle_locksmith ''idle-2'']
          (Some (str ''1 A St'')) fresh_state)
     = Inr (Some ''idle-1'', Finite 30)
   \<and> map (\<lambda>item. (cache_locksmithId item, cache_travelTime item))
        (cache_puts (snd (find_earliest_locksmith no_credentials
          [busy_locksmith, idle_locksmith ''idle-1'', idle_locksmith ''idle-2'']
          (Some (str ''1 A St'')) fresh_state)))
     = [(Some ''idle-1'', 30)]"
proof -
  define ls where "ls = [busy_locksmith, idle_locksmith ''idle-1'', idle_locksmith ''idle-2'']"
  define a where "a = Some (str ''1 A St'')"
  define st1 where "st1 = snd (geocode_with_fuzzy_matching no_credentials a fresh_state)"
  define st2 where "st2 = snd (evaluate_all no_credentials a None ls st1)"
  have st1: "st1 = fresh_state\<lparr>tick := 1, resolutions := [a]\<rparr>"
    by (simp add: st1_def a_def geocode_with_fuzzy_matching_def get_here_api_key_def truthy_def
        no_credentials_def fresh_state_def str_def Let_def)
  have g: "geocode_with_fuzzy_matching no_credentials a fresh_state = (Inr None, st1)"
    by (simp add: st1_def a_def geocode_with_fuzzy_matching_def get_here_api_key_def truthy_def
        no_credentials_def fresh_state_def str_def Let_def)
  have ev: "fst (evaluate_all no_credentials a None ls st1) =
              Inr [(Finite 70, 30), (Finite 30, 30), (Finite 30, 30)]"
    by (simp add: st1 ls_def a_def busy_locksmith_def idle_locksmith_def arrived_job_def
        pending_job_def calculate_locksmith_eta_def eta_result_def job_coords_def
        field_or_zero_def is_arrived_def
        calculate_travel_time_with_coords_def calculate_travel_time_fallback_def
        coords_or_geocode_def geocode_with_fuzzy_matching_def get_here_api_key_def truthy_def
        no_credentials_def fresh_state_def str_def Let_def)
  have cp: "cache_puts st2 = []"
    by (simp add: st2_def st1 ls_def a_def busy_locksmith_def idle_locksmith_def arrived_job_def
        pending_job_def calculate_locksmith_eta_def eta_result_def job_coords_def
        field_or_zero_def is_arrived_def
        calculate_travel_time_with_coords_def calculate_travel_time_fallback_def
        coords_or_geocode_def geocode_with_fuzzy_matching_def get_here_api_key_def truthy_def
        no_credentials_def fresh_state_def str_def Let_def)
  from ev have ev': "evaluate_all no_credentials a None ls st1 =
              (Inr [(Finite 70, 30), (Finite 30, 30), (Finite 30, 30)], st2)"
    by (simp add: st2_def prod_eq_iff)
  have ne: "ls \<noteq> []" by (simp add: ls_def)
  from dispatcher_selects_first_minimum [OF ne g ev']
  obtain winner eta travel_time where
    run: "find_earliest_locksmith no_credentials ls a fresh_state =
             (Inr (winner, eta),
              update_next_available_cache no_credentials (CURRENT_COMPANY fresh_state) winner
                travel_time None a st2)"
    and sel: "\<exists>k<length ls. winner = locksmithId (ls ! k)
                 \<and> eta = fst ([(Finite 70, 30), (Finite 30, 30), (Finite 30, 30 :: int)] ! k)
                 \<and> travel_time = snd ([(Finite 70, 30), (Finite 30, 30), (Finite 30, 30 :: int)] ! k)
                 \<and> (\<forall>j<k. float_less eta (fst ([(Finite 70, 30), (Finite 30, 30), (Finite 30, 30 :: int)] ! j)))
                 \<and> (\<forall>j<3. \<not> float_less (fst ([(Finite 70, 30), (Finite 30, 30), (Finite 30, 30 :: int)] ! j)) eta)"
    by (auto simp: less_Suc_eq numeral_3_eq_3)
  from sel have w: "winner = Some ''idle-1'' \<and> eta = Finite 30 \<and> travel_time = 30"
    by (auto simp: ls_def less_Suc_eq numeral_3_eq_3 busy_locksmith_def idle_locksmith_def)
  show ?thesis
    using ev w cp unfolding ls_def [symmetric] a_def [symmetric] st1_def [symmetric] run
    by (simp add: update_next_available_cache_def)
qed

section \<open>The Dispatcher: resolutions of the target\<close>





























end
